theory Spec2Isabelle
  imports Main "HOL-Library.Sublist"
begin

section \<open>The OASIS VBM dataset fetcher (nidata/anatomical/oasis\_vbm/datasets.py)\<close>

text \<open>
  The module holds one method, \<open>OasisVbmDataset.fetch\<close>, and the public wrapper
  \<open>fetch_oasis_vbm\<close>. The method is embedded block by block, in the order of the
  source: the check of the number of subjects, the choice of the URLs, the lists of
  files, the call of the fetcher, the slices of its result and the filter of the CSV
  rows. Python's \<open>int\<close> is \<open>int\<close>, \<open>None\<close> is \<open>None\<close>, an exception is the left
  summand of a sum, and what the call does to the outside world is a list of events.
\<close>

subsection \<open>Errors, events and Python primitives\<close>

datatype error =
    ValueError int      \<comment> \<open>"Incorrect number of subjects (%d)", with the number\<close>
  | NameError string    \<comment> \<open>a global name that the module never binds\<close>
  | IndexError
  | TypeError           \<comment> \<open>iterating over a record that is not an array\<close>
  | SplitError          \<comment> \<open>\<open>str.split\<close> with an empty separator\<close>
  | FetcherError string \<comment> \<open>whatever the fetcher collaborator raises\<close>
  | CsvError string     \<comment> \<open>whatever \<open>np.recfromcsv\<close> raises\<close>

type_synonym opts = "(string \<times> bool) list"
type_synonym entry = "string \<times> string \<times> opts"
type_synonym csv_row = "string \<times> string list"

datatype event =
    Warned int int                  \<comment> \<open>\<open>warnings.warn\<close>: the cap and the wanted number\<close>
  | Fetched "entry list" bool bool int
  | ReadCsv string

text \<open>The names bound at module level: the imports of lines 8 to 14 and the two
  definitions. A global that is not among them raises \<open>NameError\<close> when it is read.\<close>

definition module_globals :: "string list" where
  "module_globals = [''os'', ''np'', ''Bunch'', ''HttpDataset'', ''format_time'',
     ''md5_sum_file'', ''OasisVbmDataset'', ''fetch_oasis_vbm'']"

definition warnings_warn :: "string list \<Rightarrow> int \<Rightarrow> int \<Rightarrow> event list \<Rightarrow> error + event list" where
  "warnings_warn globals cap wanted tr =
     (if ''warnings'' \<in> set globals then Inr (tr @ [Warned cap wanted])
      else Inl (NameError ''warnings''))"

text \<open>Python slices \<open>xs[i:j]\<close> and indexing \<open>xs[i]\<close>, negative positions included.\<close>

definition slice_bound :: "int \<Rightarrow> nat \<Rightarrow> nat" where
  "slice_bound i L = (if i < 0 then nat (max (i + int L) 0) else min (nat i) L)"

definition py_slice :: "'a list \<Rightarrow> int \<Rightarrow> int \<Rightarrow> 'a list" where
  "py_slice xs i j =
     (let a = slice_bound i (length xs); b = slice_bound j (length xs)
      in take (b - a) (drop a xs))"

definition py_index :: "'a list \<Rightarrow> int \<Rightarrow> error + 'a" where
  "py_index xs i =
     (if 0 \<le> i \<and> i < int (length xs) then Inr (xs ! nat i)
      else if i < 0 \<and> - int (length xs) \<le> i then Inr (xs ! nat (int (length xs) + i))
      else Inl IndexError)"

text \<open>\<open>"%04d" % s\<close> for the subject numbers, which are never negative.\<close>

definition digit_char :: "nat \<Rightarrow> char" where
  "digit_char d = ''0123456789'' ! d"

fun str_nat :: "nat \<Rightarrow> string" where
  "str_nat n = (if n < 10 then [digit_char n] else str_nat (n div 10) @ [digit_char (n mod 10)])"

declare str_nat.simps [simp del]

definition fmt_04d :: "nat \<Rightarrow> string" where
  "fmt_04d n = (let s = str_nat n in replicate (4 - length s) CHR ''0'' @ s)"

text \<open>\<open>os.path.basename\<close> (POSIX) and \<open>str.split\<close> with a separator.\<close>

fun basename_acc :: "string \<Rightarrow> string \<Rightarrow> string" where
  "basename_acc acc [] = acc"
| "basename_acc acc (c # cs) = (if c = CHR ''/'' then basename_acc [] cs else basename_acc (acc @ [c]) cs)"

definition basename :: "string \<Rightarrow> string" where
  "basename p = basename_acc [] p"

fun split_acc :: "string \<Rightarrow> string \<Rightarrow> string \<Rightarrow> string list" where
  "split_acc sep acc [] = [acc]"
| "split_acc sep acc (c # cs) =
     (if sep \<noteq> [] \<and> take (length sep) (c # cs) = sep
      then acc # split_acc sep [] (drop (length sep - 1) cs)
      else split_acc sep (acc @ [c]) cs)"

definition str_split :: "string \<Rightarrow> string \<Rightarrow> error + string list" where
  "str_split s sep = (if sep = [] then Inl SplitError else Inr (split_acc sep [] s))"

subsection \<open>Lines 105 to 123: the number of subjects\<close>

definition check_n_subjects ::
  "string list \<Rightarrow> int option \<Rightarrow> bool \<Rightarrow> (error + int) \<times> event list" where
  "check_n_subjects globals n_subjects dartel_version =
     (let n = (case n_subjects of None \<Rightarrow> (if dartel_version then 403 else 415) | Some k \<Rightarrow> k);
          clamped =
            (if dartel_version then
               (if n > 403 then
                  (case warnings_warn globals 403 n [] of
                     Inl e \<Rightarrow> (Inl e, [])
                   | Inr tr \<Rightarrow> (Inr 403, tr))
                else (Inr n, []))
             else
               (if n > 415 then
                  (case warnings_warn globals 415 n [] of
                     Inl e \<Rightarrow> (Inl e, [])
                   | Inr tr \<Rightarrow> (Inr 415, tr))
                else (Inr n, [])))
      in case clamped of
           (Inl e, tr) \<Rightarrow> (Inl e, tr)
         | (Inr m, tr) \<Rightarrow> if m < 1 then (Inl (ValueError m), tr) else (Inr m, tr))"

subsection \<open>Lines 125 to 144: the URLs\<close>

definition url_images_of :: "bool \<Rightarrow> string option \<Rightarrow> string" where
  "url_images_of dartel_version url =
     (case url of
        None \<Rightarrow>
          (if dartel_version
           then ''https://www.nitrc.org/frs/download.php/'' @ ''6364/archive_dartel.tgz?i_agree=1&download_now=1''
           else ''https://www.nitrc.org/frs/download.php/'' @ ''6359/archive.tgz?i_agree=1&download_now=1'')
      | Some u \<Rightarrow> (if dartel_version then u @ ''/archive_dartel.tgz'' else u @ ''/archive.tgz''))"

definition url_csv_of :: "string option \<Rightarrow> string" where
  "url_csv_of url =
     (case url of
        None \<Rightarrow> ''https://www.nitrc.org/frs/download.php/'' @ ''6348/oasis_cross-sectional.csv?i_agree=1&download_now=1''
      | Some u \<Rightarrow> u @ ''/oasis_cross-sectional.csv'')"

definition url_dua_of :: "string option \<Rightarrow> string" where
  "url_dua_of url =
     (case url of
        None \<Rightarrow> ''https://www.nitrc.org/frs/download.php/'' @ ''6349/data_usage_agreement.txt?i_agree=1&download_now=1''
      | Some u \<Rightarrow> u @ ''/data_usage_agreement.txt'')"

subsection \<open>Lines 146 to 198: the lists of files\<close>

definition opts_uncompress :: opts where
  "opts_uncompress = [(''uncompress'', True)]"

definition missing_subjects :: "nat list" where
  "missing_subjects = [8, 24, 36, 48, 89, 93, 100, 118, 128, 149, 154,
                       171, 172, 175, 187, 194, 196, 215, 219, 225, 242,
                       245, 248, 251, 252, 257, 276, 297, 306, 320, 324,
                       334, 347, 360, 364, 391, 393, 412, 414, 427, 436]"

definition removed_outliers :: "bool \<Rightarrow> nat list" where
  "removed_outliers dartel_version =
     (if dartel_version
      then [27, 57, 66, 83, 122, 157, 222, 269, 282, 287, 309, 428]
      else [390])"

definition merged_missing :: "bool \<Rightarrow> nat list" where
  "merged_missing dartel_version = sort (missing_subjects @ removed_outliers dartel_version)"

definition available_subjects :: "bool \<Rightarrow> nat list" where
  "available_subjects dartel_version =
     filter (\<lambda>s. s \<notin> set (merged_missing dartel_version)) [1..<457]"

definition subject_path :: "string \<Rightarrow> nat \<Rightarrow> string" where
  "subject_path pre s =
     ''OAS1_'' @ fmt_04d s @ ''_MR1'' @ ''/'' @ pre @ ''OAS1_'' @ fmt_04d s
       @ ''_MR1_mpr_anon_fslswapdim_bet.nii.gz''"

definition gm_prefix :: "bool \<Rightarrow> string" where
  "gm_prefix dartel_version = (if dartel_version then ''mwrc1'' else ''mwc1'')"

definition wm_prefix :: "bool \<Rightarrow> string" where
  "wm_prefix dartel_version = (if dartel_version then ''mwrc2'' else ''mwc2'')"

definition file_names_gm :: "int \<Rightarrow> bool \<Rightarrow> string option \<Rightarrow> entry list" where
  "file_names_gm n_subjects dartel_version url =
     py_slice
       (py_slice
          (map (\<lambda>s. (subject_path (gm_prefix dartel_version) s,
                      url_images_of dartel_version url, opts_uncompress))
               (available_subjects dartel_version))
          0 n_subjects)
       0 n_subjects"

definition file_names_wm :: "int \<Rightarrow> bool \<Rightarrow> string option \<Rightarrow> entry list" where
  "file_names_wm n_subjects dartel_version url =
     py_slice
       (map (\<lambda>s. (subject_path (wm_prefix dartel_version) s,
                   url_images_of dartel_version url, opts_uncompress))
            (available_subjects dartel_version))
       0 n_subjects"

definition file_names_extvars :: "string option \<Rightarrow> entry list" where
  "file_names_extvars url = [(''oasis_cross-sectional.csv'', url_csv_of url, [])]"

definition file_names_dua :: "string option \<Rightarrow> entry list" where
  "file_names_dua url = [(''data_usage_agreement.txt'', url_dua_of url, [])]"

definition file_names :: "int \<Rightarrow> bool \<Rightarrow> string option \<Rightarrow> entry list" where
  "file_names n_subjects dartel_version url =
     file_names_gm n_subjects dartel_version url @ file_names_wm n_subjects dartel_version url
       @ file_names_extvars url @ file_names_dua url"

subsection \<open>Lines 199 to 223: the fetcher, the slices and the CSV rows\<close>

text \<open>
  The two collaborators that the method calls and that live outside this module are
  parameters: the fetcher of the dataset object (built by \<open>HttpDataset\<close> from
  \<open>data_dir\<close>), which takes the list of files with \<open>resume\<close>, \<open>force\<close> and
  \<open>verbose\<close> and returns the local paths or raises, and \<open>np.recfromcsv\<close>, which
  reads the rows of a file or raises. A row is its \<open>id\<close> column and the other columns.
\<close>

record env =
  fetcher :: "string option \<Rightarrow> entry list \<Rightarrow> bool \<Rightarrow> bool \<Rightarrow> int \<Rightarrow> error + string list"
  recfromcsv :: "string \<Rightarrow> error + csv_row list"

record bunch =
  gray_matter_maps :: "string list"
  white_matter_maps :: "string list"
  ext_vars :: "csv_row list"
  data_usage_agreement :: string

text \<open>\<open>"OAS1" + str.split(os.path.basename(x), "OAS1")[1][:9]\<close>; the bytes of
  \<open>.encode()\<close> are the characters themselves.\<close>

definition subject_id_of :: "string \<Rightarrow> error + string" where
  "subject_id_of x =
     (case str_split (basename x) ''OAS1'' of
        Inl e \<Rightarrow> Inl e
      | Inr parts \<Rightarrow>
          (case py_index parts 1 of
             Inl e \<Rightarrow> Inl e
           | Inr p \<Rightarrow> Inr (''OAS1'' @ py_slice p 0 9)))"

fun actual_subjects_ids :: "string list \<Rightarrow> error + string list" where
  "actual_subjects_ids [] = Inr []"
| "actual_subjects_ids (x # xs) =
     (case subject_id_of x of
        Inl e \<Rightarrow> Inl e
      | Inr t \<Rightarrow> (case actual_subjects_ids xs of Inl e \<Rightarrow> Inl e | Inr ts \<Rightarrow> Inr (t # ts)))"

definition subject_mask :: "string list \<Rightarrow> csv_row list \<Rightarrow> bool list" where
  "subject_mask ids csv_data = map (\<lambda>row. fst row \<in> set ids) csv_data"

text \<open>Indexing an array with a mask of its own length keeps the rows at the true positions.
  \<open>np.recfromcsv\<close> gives an array of records only for a table of two rows or more. A
  table of one row comes back as a single record, and the loop over its \<open>id\<close> column
  at line 215 raises \<open>TypeError\<close>; a table without rows comes back empty, its mask is
  an empty array of floats, and the indexing at line 217 raises \<open>IndexError\<close>.\<close>

definition mask_select :: "'a list \<Rightarrow> bool list \<Rightarrow> 'a list" where
  "mask_select rows msk = map fst (filter snd (zip rows msk))"

definition build_bunch :: "(string \<Rightarrow> error + csv_row list) \<Rightarrow> int \<Rightarrow> string list \<Rightarrow> (error + bunch) \<times> event list" where
  "build_bunch read_csv n_subjects files =
     (let gm_maps = py_slice files 0 n_subjects;
          wm_maps = py_slice files n_subjects (2 * n_subjects)
      in case py_index files (- 2) of
           Inl e \<Rightarrow> (Inl e, [])
         | Inr ext_vars_file \<Rightarrow>
             (case py_index files (- 1) of
                Inl e \<Rightarrow> (Inl e, [])
              | Inr dua \<Rightarrow>
                  (case read_csv ext_vars_file of
                     Inl e \<Rightarrow> (Inl e, [ReadCsv ext_vars_file])
                   | Inr csv_data \<Rightarrow>
                       (case actual_subjects_ids gm_maps of
                          Inl e \<Rightarrow> (Inl e, [ReadCsv ext_vars_file])
                        | Inr ids \<Rightarrow>
                            (if length csv_data = 1 then (Inl TypeError, [ReadCsv ext_vars_file])
                             else if csv_data = [] then (Inl IndexError, [ReadCsv ext_vars_file])
                             else
                               (Inr \<lparr> gray_matter_maps = gm_maps,
                                      white_matter_maps = wm_maps,
                                      ext_vars = mask_select csv_data (subject_mask ids csv_data),
                                      data_usage_agreement = dua \<rparr>,
                                [ReadCsv ext_vars_file]))))))"

definition fetch_with ::
  "string list \<Rightarrow> env \<Rightarrow> string option \<Rightarrow> int option \<Rightarrow> bool \<Rightarrow> string option \<Rightarrow> bool \<Rightarrow> bool \<Rightarrow> int
     \<Rightarrow> (error + bunch) \<times> event list" where
  "fetch_with globals e data_dir n_subjects dartel_version url resume force verbose =
     (case check_n_subjects globals n_subjects dartel_version of
        (Inl err, tr) \<Rightarrow> (Inl err, tr)
      | (Inr n, tr) \<Rightarrow>
          (let fs = file_names n dartel_version url;
               tr1 = tr @ [Fetched fs resume force verbose]
           in case fetcher e data_dir fs resume force verbose of
                Inl err \<Rightarrow> (Inl err, tr1)
              | Inr files \<Rightarrow>
                  (case build_bunch (recfromcsv e) n files of
                     (r, tr2) \<Rightarrow> (r, tr1 @ tr2))))"

text \<open>The method as the module defines it, and the public function, which leaves
  \<open>force\<close> at its default.\<close>

definition fetch ::
  "env \<Rightarrow> string option \<Rightarrow> int option \<Rightarrow> bool \<Rightarrow> string option \<Rightarrow> bool \<Rightarrow> bool \<Rightarrow> int
     \<Rightarrow> (error + bunch) \<times> event list" where
  "fetch = fetch_with module_globals"

definition fetch_oasis_vbm ::
  "env \<Rightarrow> int option \<Rightarrow> bool \<Rightarrow> string option \<Rightarrow> string option \<Rightarrow> bool \<Rightarrow> int
     \<Rightarrow> (error + bunch) \<times> event list" where
  "fetch_oasis_vbm e n_subjects dartel_version data_dir url resume verbose =
     fetch e data_dir n_subjects dartel_version url resume False verbose"

text \<open>The number of subjects that a call uses: what the check leaves in \<open>n_subjects\<close>.\<close>

definition effective_count :: "int option \<Rightarrow> bool \<Rightarrow> error + int" where
  "effective_count n_subjects dartel_version = fst (check_n_subjects module_globals n_subjects dartel_version)"

definition cap :: "bool \<Rightarrow> int" where
  "cap dartel_version = (if dartel_version then 403 else 415)"

text \<open>A fetcher for the examples: every file lands under the data directory.\<close>

definition local_fetcher :: "string option \<Rightarrow> entry list \<Rightarrow> bool \<Rightarrow> bool \<Rightarrow> int \<Rightarrow> error + string list" where
  "local_fetcher data_dir fs resume force verbose =
     Inr (map (\<lambda>f. (case data_dir of None \<Rightarrow> ''nidata_data'' | Some d \<Rightarrow> d) @ ''/oasis_vbm/'' @ fst f) fs)"

text \<open>The example environment: the fetcher above, and a covariates table with one row
  for each of the subjects 1 to 10, whatever file is read.\<close>

definition example_rows :: "csv_row list" where
  "example_rows = map (\<lambda>s. (''OAS1_'' @ fmt_04d s @ ''_MR1'', [''R''])) [1..<11]"

definition example_env :: env where
  "example_env = \<lparr> fetcher = local_fetcher, recfromcsv = (\<lambda>p. Inr example_rows) \<rparr>"

text \<open>A second environment, with the same table: its fetcher hands back the files of
  the subjects 1, 3 and 5 under the directory \<open>/data/OAS1\<close>, whatever is asked.\<close>

definition sparse_fetcher :: "string option \<Rightarrow> entry list \<Rightarrow> bool \<Rightarrow> bool \<Rightarrow> int \<Rightarrow> error + string list" where
  "sparse_fetcher data_dir fs resume force verbose =
     Inr (map (\<lambda>s. ''/data/OAS1/'' @ subject_path ''mwrc1'' s) [1, 3, 5]
          @ map (\<lambda>s. ''/data/OAS1/'' @ subject_path ''mwrc2'' s) [1, 3, 5]
          @ [''/data/OAS1/oasis_cross-sectional.csv'', ''/data/OAS1/data_usage_agreement.txt''])"

definition sparse_env :: env where
  "sparse_env = \<lparr> fetcher = sparse_fetcher, recfromcsv = (\<lambda>p. Inr example_rows) \<rparr>"

text \<open>What the call returns in this second environment.\<close>

definition sparse_bunch :: bunch where
  "sparse_bunch =
     \<lparr> gray_matter_maps =
         [''/data/OAS1/OAS1_0001_MR1/mwrc1OAS1_0001_MR1_mpr_anon_fslswapdim_bet.nii.gz'',
          ''/data/OAS1/OAS1_0003_MR1/mwrc1OAS1_0003_MR1_mpr_anon_fslswapdim_bet.nii.gz'',
          ''/data/OAS1/OAS1_0005_MR1/mwrc1OAS1_0005_MR1_mpr_anon_fslswapdim_bet.nii.gz''],
       white_matter_maps =
         [''/data/OAS1/OAS1_0001_MR1/mwrc2OAS1_0001_MR1_mpr_anon_fslswapdim_bet.nii.gz'',
          ''/data/OAS1/OAS1_0003_MR1/mwrc2OAS1_0003_MR1_mpr_anon_fslswapdim_bet.nii.gz'',
          ''/data/OAS1/OAS1_0005_MR1/mwrc2OAS1_0005_MR1_mpr_anon_fslswapdim_bet.nii.gz''],
       ext_vars = [(''OAS1_0001_MR1'', [''R'']), (''OAS1_0003_MR1'', [''R'']), (''OAS1_0005_MR1'', [''R''])],
       data_usage_agreement = ''/data/OAS1/data_usage_agreement.txt'' \<rparr>"

text \<open>What the call returns for two subjects of the DARTEL version in the example
  environment, under the data directory \<open>d\<close>.\<close>

definition example_bunch :: bunch where
  "example_bunch =
     \<lparr> gray_matter_maps =
         [''d/oasis_vbm/OAS1_0001_MR1/mwrc1OAS1_0001_MR1_mpr_anon_fslswapdim_bet.nii.gz'',
          ''d/oasis_vbm/OAS1_0002_MR1/mwrc1OAS1_0002_MR1_mpr_anon_fslswapdim_bet.nii.gz''],
       white_matter_maps =
         [''d/oasis_vbm/OAS1_0001_MR1/mwrc2OAS1_0001_MR1_mpr_anon_fslswapdim_bet.nii.gz'',
          ''d/oasis_vbm/OAS1_0002_MR1/mwrc2OAS1_0002_MR1_mpr_anon_fslswapdim_bet.nii.gz''],
       ext_vars = [(''OAS1_0001_MR1'', [''R'']), (''OAS1_0002_MR1'', [''R''])],
       data_usage_agreement = ''d/oasis_vbm/data_usage_agreement.txt'' \<rparr>"

section \<open>Properties\<close>

subsection \<open>Counting the subjects\<close>

text \<open>Removing a duplicate-free list of numbers of a range from that range leaves as
  many numbers as the difference of the lengths. It counts the subjects without
  enumerating them.\<close>

lemma length_filter_notin_upt:
  assumes "distinct xs" and "set xs \<subseteq> {a..<b}"
  shows "length (filter (\<lambda>s. s \<notin> set xs) [a..<b]) = (b - a) - length xs"
proof -
  have "length (filter (\<lambda>s. s \<notin> set xs) [a..<b]) = card ({s. s \<notin> set xs} \<inter> set [a..<b])"
    by (simp add: distinct_length_filter)
  also have "{s. s \<notin> set xs} \<inter> set [a..<b] = {a..<b} - set xs"
    by auto
  also have "card ({a..<b} - set xs) = card {a..<b} - card (set xs)"
    using assms(2) by (simp add: card_Diff_subset)
  also have "card (set xs) = length xs"
    using assms(1) by (rule distinct_card)
  finally show ?thesis by simp
qed

lemma distinct_missing_True: "distinct (missing_subjects @ removed_outliers True)"
  by (simp add: missing_subjects_def removed_outliers_def)

lemma distinct_missing_False: "distinct (missing_subjects @ removed_outliers False)"
  by (simp add: missing_subjects_def removed_outliers_def)

lemma range_missing_True: "set (missing_subjects @ removed_outliers True) \<subseteq> {1..<457}"
  by (simp add: missing_subjects_def removed_outliers_def)

lemma range_missing_False: "set (missing_subjects @ removed_outliers False) \<subseteq> {1..<457}"
  by (simp add: missing_subjects_def removed_outliers_def)

lemma length_missing_subjects: "length missing_subjects = 41"
  by (simp add: missing_subjects_def)

lemma length_available_subjects:
  "length (available_subjects dartel_version) = (if dartel_version then 403 else 414)"
proof (cases dartel_version)
  case True
  show ?thesis
    using True length_filter_notin_upt [OF distinct_missing_True range_missing_True]
    by (simp add: available_subjects_def merged_missing_def length_missing_subjects removed_outliers_def
        del: set_append distinct_append)
next
  case False
  show ?thesis
    using False length_filter_notin_upt [OF distinct_missing_False range_missing_False]
    by (simp add: available_subjects_def merged_missing_def length_missing_subjects removed_outliers_def
        del: set_append distinct_append)
qed

subsection \<open>Slices\<close>

lemma py_slice_prefix: "0 \<le> n \<Longrightarrow> py_slice xs 0 n = take (nat n) xs"
  by (simp add: py_slice_def slice_bound_def Let_def min_def)

lemma py_slice_middle: "0 \<le> n \<Longrightarrow> py_slice xs n (2 * n) = take (nat n) (drop (nat n) xs)"
  by (simp add: py_slice_def slice_bound_def Let_def min_def nat_mult_distrib)

lemma length_py_slice_le: "length (py_slice xs i j) \<le> length xs"
  by (simp add: py_slice_def Let_def)

lemma set_py_slice: "set (py_slice xs i j) \<subseteq> set xs"
  unfolding py_slice_def Let_def
  by (meson set_take_subset set_drop_subset subset_trans)

lemma length_file_names_gm:
  "0 \<le> n \<Longrightarrow> length (file_names_gm n d url) = min (nat n) (length (available_subjects d))"
  by (simp add: file_names_gm_def py_slice_prefix)

lemma length_file_names_wm:
  "0 \<le> n \<Longrightarrow> length (file_names_wm n d url) = min (nat n) (length (available_subjects d))"
  by (simp add: file_names_wm_def py_slice_prefix)

lemma length_file_names:
  "0 \<le> n \<Longrightarrow> length (file_names n d url) = 2 * min (nat n) (length (available_subjects d)) + 2"
  by (simp add: file_names_def length_file_names_gm length_file_names_wm
      file_names_extvars_def file_names_dua_def)

subsection \<open>The check of the number of subjects\<close>

lemma check_n_subjects_Some:
  "check_n_subjects module_globals (Some n) d =
     (if cap d < n then (Inl (NameError ''warnings''), [])
      else if n < 1 then (Inl (ValueError n), [])
      else (Inr n, []))"
  by (cases d) (auto simp: check_n_subjects_def warnings_warn_def module_globals_def cap_def Let_def)

lemma check_n_subjects_None: "check_n_subjects module_globals None d = (Inr (cap d), [])"
  by (simp add: check_n_subjects_def cap_def Let_def)

text \<open>Had the module imported \<open>warnings\<close>, a number above the cap would be warned about
  and replaced by the cap.\<close>

lemma check_n_subjects_with_warnings:
  "cap d < n \<Longrightarrow>
   check_n_subjects (''warnings'' # module_globals) (Some n) d = (Inr (cap d), [Warned (cap d) n])"
  by (cases d) (auto simp: check_n_subjects_def warnings_warn_def cap_def Let_def)

text \<open>
  C9. When \<open>n_subjects\<close> is \<open>None\<close>, the number of subjects that the call uses is the
  cap of the variant: 403 for the DARTEL version and 415 for the standard one, and
  nothing is warned about.
\<close>

theorem n_subjects_default:
  "effective_count None True = Inr 403 \<and> effective_count None False = Inr 415
   \<and> effective_count None d = Inr (cap d)
   \<and> check_n_subjects module_globals None d = (Inr (cap d), [])"
  by (simp add: effective_count_def check_n_subjects_None cap_def)

text \<open>
  C6. A requested number of subjects below 1 ends the call with \<open>ValueError\<close>, carrying
  that number, and with an empty trace: the fetcher was not called and no file was
  read. The public function behaves the same.
\<close>

theorem invalid_n_subjects:
  assumes "n < 1"
  shows "fetch e data_dir (Some n) d url resume force verbose = (Inl (ValueError n), [])
     \<and> fetch_oasis_vbm e (Some n) d data_dir url resume verbose = (Inl (ValueError n), [])"
  using assms
  by (simp add: fetch_oasis_vbm_def fetch_def fetch_with_def check_n_subjects_Some cap_def)

theorem invalid_n_subjects_witness:
  "(0::int) < 1
   \<and> fetch example_env None (Some 0) True None True False 1 = (Inl (ValueError 0), [])
   \<and> fetch_oasis_vbm example_env (Some 0) True None None True 1 = (Inl (ValueError 0), [])"
  using invalid_n_subjects [of 0 example_env None True None True False 1] by simp

text \<open>
  C3. A requested number above the cap should be warned about, replaced by the cap, and
  the call should go on. The module never imports \<open>warnings\<close>, so the call ends with
  \<open>NameError\<close> instead, before any file is fetched: at 404 subjects for the DARTEL
  version and at 416 for the standard one.
\<close>

theorem warning_raises_name_error:
  "fetch e data_dir (Some 404) True url resume force verbose = (Inl (NameError ''warnings''), [])
   \<and> fetch e data_dir (Some 416) False url resume force verbose = (Inl (NameError ''warnings''), [])"
  by (simp add: fetch_def fetch_with_def check_n_subjects_Some cap_def)

subsection \<open>The excluded and the available subjects\<close>

text \<open>
  C7. The list of outliers should have 13 entries for the DARTEL version, as the
  docstring of the class and the comment at the check of the number of subjects say,
  and 1 entry for the standard version. The list of the DARTEL branch has 12 entries,
  not 13. The merged list of excluded subjects is sorted, has no duplicate, holds the
  missing subjects and the outliers and nothing else, and has
  \<open>length missing_subjects + 12\<close> entries for the DARTEL version and
  \<open>length missing_subjects + 1\<close> for the standard one.
\<close>

theorem exclusion_set_sizes:
  "length (removed_outliers True) = 12 \<and> length (removed_outliers True) \<noteq> 13
   \<and> length (removed_outliers False) = 1
   \<and> length (merged_missing True) = length missing_subjects + 12
   \<and> length (merged_missing False) = length missing_subjects + 1
   \<and> sorted (merged_missing d) \<and> distinct (merged_missing d)
   \<and> set (merged_missing d) = set missing_subjects \<union> set (removed_outliers d)"
proof -
  have "distinct (merged_missing d)"
    using distinct_missing_True distinct_missing_False
    by (cases d) (simp_all add: merged_missing_def del: distinct_append)
  then show ?thesis
    by (simp add: merged_missing_def removed_outliers_def)
qed

text \<open>
  C4. For the standard version there are 41 missing subjects and the outlier 390; the
  numbers 1 to 456 without them are 414 subjects, fewer than the cap 415. The lists of
  gray-matter and white-matter files never have more than 414 entries, whatever the
  number asked for, and have 414 when the number of subjects is the cap.
\<close>

theorem non_dartel_available:
  "length missing_subjects = 41 \<and> removed_outliers False = [390]
   \<and> length (available_subjects False) = 414
   \<and> int (length (available_subjects False)) < cap False
   \<and> length (file_names_gm n False url) \<le> 414
   \<and> length (file_names_wm n False url) \<le> 414
   \<and> length (file_names_gm (cap False) False url) = 414
   \<and> length (file_names_wm (cap False) False url) = 414"
proof -
  have a: "length (available_subjects False) = 414"
    by (simp add: length_available_subjects)
  have "length (file_names_gm n False url) \<le> length (available_subjects False)"
    unfolding file_names_gm_def
    by (rule order_trans [OF length_py_slice_le], rule order_trans [OF length_py_slice_le]) simp
  moreover have "length (file_names_wm n False url) \<le> length (available_subjects False)"
    unfolding file_names_wm_def
    by (rule order_trans [OF length_py_slice_le]) simp
  ultimately show ?thesis
    using a by (simp add: length_missing_subjects removed_outliers_def cap_def
        length_file_names_gm length_file_names_wm)
qed

text \<open>
  C2. For every number of subjects from 1 to the cap, the lists of gray-matter and of
  white-matter files should have that number of entries. For the standard version at
  the cap, 415, which the check accepts, both lists have 414 entries.
\<close>

theorem manifest_short_at_415:
  "effective_count (Some 415) False = Inr 415
   \<and> length (file_names_gm 415 False url) = 414
   \<and> length (file_names_wm 415 False url) = 414"
  by (simp add: effective_count_def check_n_subjects_Some cap_def
      length_file_names_gm length_file_names_wm length_available_subjects)

text \<open>Below that, the lists have the number of entries asked for.\<close>

lemma file_names_lengths_in_range:
  "1 \<le> n \<Longrightarrow> n \<le> int (length (available_subjects d)) \<Longrightarrow>
   length (file_names_gm n d url) = nat n \<and> length (file_names_wm n d url) = nat n"
  by (simp add: length_file_names_gm length_file_names_wm)

subsection \<open>The URLs\<close>

lemma urls_file_names_gm:
  "map (\<lambda>en. fst (snd en)) (file_names_gm n d url)
     = replicate (length (file_names_gm n d url)) (url_images_of d url)"
proof -
  have "\<forall>y\<in>set (map (\<lambda>en. fst (snd en)) (file_names_gm n d url)). y = url_images_of d url"
    unfolding file_names_gm_def
    by (auto dest!: subsetD [OF set_py_slice])
  from replicate_length_same [OF this] show ?thesis by simp
qed

lemma urls_file_names_wm:
  "map (\<lambda>en. fst (snd en)) (file_names_wm n d url)
     = replicate (length (file_names_wm n d url)) (url_images_of d url)"
proof -
  have "\<forall>y\<in>set (map (\<lambda>en. fst (snd en)) (file_names_wm n d url)). y = url_images_of d url"
    unfolding file_names_wm_def
    by (auto dest!: subsetD [OF set_py_slice])
  from replicate_length_same [OF this] show ?thesis by simp
qed

lemma last_neq: "xs \<noteq> [] \<Longrightarrow> ys \<noteq> [] \<Longrightarrow> last xs \<noteq> last ys \<Longrightarrow> zs @ xs \<noteq> ys"
  by (metis last_appendR)

text \<open>
  C8. With a base URL \<open>X\<close>, the four URLs are \<open>X\<close> followed by \<open>/archive_dartel.tgz\<close>
  (DARTEL images), \<open>/archive.tgz\<close> (standard images), \<open>/oasis_cross-sectional.csv\<close> and
  \<open>/data_usage_agreement.txt\<close>. Without one they are the four NITRC URLs, which no base
  URL gives. In the list of files, every image has the URL of the images, the CSV has
  the URL of the CSV and the agreement has its own.
\<close>

theorem override_urls:
  "url_images_of True (Some X) = X @ ''/archive_dartel.tgz''
   \<and> url_images_of False (Some X) = X @ ''/archive.tgz''
   \<and> url_csv_of (Some X) = X @ ''/oasis_cross-sectional.csv''
   \<and> url_dua_of (Some X) = X @ ''/data_usage_agreement.txt''
   \<and> url_images_of True None = ''https://www.nitrc.org/frs/download.php/6364/archive_dartel.tgz?i_agree=1&download_now=1''
   \<and> url_images_of False None = ''https://www.nitrc.org/frs/download.php/6359/archive.tgz?i_agree=1&download_now=1''
   \<and> url_csv_of None = ''https://www.nitrc.org/frs/download.php/6348/oasis_cross-sectional.csv?i_agree=1&download_now=1''
   \<and> url_dua_of None = ''https://www.nitrc.org/frs/download.php/6349/data_usage_agreement.txt?i_agree=1&download_now=1''
   \<and> url_images_of d (Some X) \<noteq> url_images_of d None
   \<and> url_csv_of (Some X) \<noteq> url_csv_of None
   \<and> url_dua_of (Some X) \<noteq> url_dua_of None
   \<and> map (\<lambda>en. fst (snd en)) (file_names n d url)
       = replicate (length (file_names_gm n d url) + length (file_names_wm n d url)) (url_images_of d url)
         @ [url_csv_of url, url_dua_of url]"
proof -
  have a: "url_images_of d (Some X) \<noteq> url_images_of d None"
    by (cases d) (simp_all add: url_images_of_def last_neq)
  have b: "url_csv_of (Some X) \<noteq> url_csv_of None"
    by (simp add: url_csv_of_def last_neq)
  have c: "url_dua_of (Some X) \<noteq> url_dua_of None"
    by (simp add: url_dua_of_def last_neq)
  have m: "map (\<lambda>en. fst (snd en)) (file_names n d url)
       = replicate (length (file_names_gm n d url) + length (file_names_wm n d url)) (url_images_of d url)
         @ [url_csv_of url, url_dua_of url]"
    by (simp add: file_names_def urls_file_names_gm urls_file_names_wm replicate_add
        file_names_extvars_def file_names_dua_def)
  show ?thesis
    using a b c m by (simp add: url_images_of_def url_csv_of_def url_dua_of_def)
qed

subsection \<open>A successful call, step by step\<close>

lemma check_n_subjects_ok:
  assumes "check_n_subjects module_globals n_subjects d = (Inr k, t)"
  shows "t = [] \<and> 1 \<le> k \<and> k \<le> cap d \<and> effective_count n_subjects d = Inr k"
proof (cases n_subjects)
  case None
  with assms show ?thesis
    by (simp add: check_n_subjects_None effective_count_def cap_def split: if_splits)
next
  case (Some n)
  with assms show ?thesis
    by (simp add: check_n_subjects_Some effective_count_def split: if_splits)
qed

lemma py_index_last: "py_index xs (- 1) = Inr y \<Longrightarrow> xs \<noteq> [] \<and> y = last xs"
  by (cases xs rule: rev_cases) (simp_all add: py_index_def split: if_splits)

lemma py_index_before_last:
  "py_index xs (- 2) = Inr y \<Longrightarrow> 2 \<le> length xs \<and> y = xs ! (length xs - 2)"
  by (auto simp: py_index_def nat_diff_distrib' split: if_splits)

lemma build_bunch_success:
  assumes "build_bunch read_csv k files = (Inr b, t)"
  shows "\<exists>csv_file csv_data ids.
           py_index files (- 2) = Inr csv_file
         \<and> py_index files (- 1) = Inr (data_usage_agreement b)
         \<and> read_csv csv_file = Inr csv_data
         \<and> actual_subjects_ids (gray_matter_maps b) = Inr ids
         \<and> gray_matter_maps b = py_slice files 0 k
         \<and> white_matter_maps b = py_slice files k (2 * k)
         \<and> ext_vars b = mask_select csv_data (subject_mask ids csv_data)
         \<and> 2 \<le> length csv_data
         \<and> t = [ReadCsv csv_file]"
proof -
  have "2 \<le> length xs" if "length xs \<noteq> 1" "xs \<noteq> []" for xs :: "csv_row list"
  proof -
    from that(2) have "length xs \<noteq> 0" by simp
    with that(1) show ?thesis by linarith
  qed
  with assms show ?thesis
    by (auto simp: build_bunch_def Let_def split: sum.splits if_splits)
qed

lemma fetch_success:
  assumes "fetch e data_dir n_subjects d url resume force verbose = (Inr b, tr)"
  shows "\<exists>k files t.
           effective_count n_subjects d = Inr k \<and> 1 \<le> k \<and> k \<le> cap d
         \<and> fetcher e data_dir (file_names k d url) resume force verbose = Inr files
         \<and> build_bunch (recfromcsv e) k files = (Inr b, t)
         \<and> tr = Fetched (file_names k d url) resume force verbose # t"
proof -
  obtain r t0 where c: "check_n_subjects module_globals n_subjects d = (r, t0)"
    by (cases "check_n_subjects module_globals n_subjects d")
  with assms obtain k where r: "r = Inr k"
    by (cases r) (simp_all add: fetch_def fetch_with_def)
  note ok = check_n_subjects_ok [OF c [unfolded r]]
  from assms c r ok show ?thesis
    by (auto simp: fetch_def fetch_with_def Let_def split: sum.splits prod.splits)
qed

lemma mask_select_filter: "mask_select rows (map P rows) = filter P rows"
  by (induction rows) (simp_all add: mask_select_def)

lemma actual_subjects_ids_rel:
  "actual_subjects_ids xs = Inr ids \<Longrightarrow> list_all2 (\<lambda>x t. subject_id_of x = Inr t) xs ids"
  by (induction xs arbitrary: ids) (auto split: sum.splits)

subsection \<open>The examples, evaluated\<close>

lemma upt_split_4: "[1..<457] = [1, 2, 3] @ [4..<457]"
proof -
  have "[1..<457] = [1..<4] @ [4..<457]"
    using upt_add_eq_append [of 1 4 453] by simp
  also have "[1..<4] = [1, 2, 3]"
    by (simp add: upt_conv_Cons)
  finally show ?thesis .
qed

lemma take_available_subjects: "take 3 (available_subjects d) = [1, 2, 3]"
proof -
  have "1 \<notin> set (merged_missing d) \<and> 2 \<notin> set (merged_missing d) \<and> 3 \<notin> set (merged_missing d)"
    by (simp add: merged_missing_def missing_subjects_def removed_outliers_def)
  then show ?thesis
    unfolding available_subjects_def upt_split_4 filter_append
    by simp
qed

lemma take_2_available_subjects: "take 2 (available_subjects d) = [1, 2]"
proof -
  have "take 2 (take 3 (available_subjects d)) = [1, 2]"
    unfolding take_available_subjects by (simp add: numeral_2_eq_2)
  then show ?thesis by simp
qed

lemma file_names_2:
  "file_names 2 d url =
     [(subject_path (gm_prefix d) 1, url_images_of d url, opts_uncompress),
      (subject_path (gm_prefix d) 2, url_images_of d url, opts_uncompress),
      (subject_path (wm_prefix d) 1, url_images_of d url, opts_uncompress),
      (subject_path (wm_prefix d) 2, url_images_of d url, opts_uncompress),
      (''oasis_cross-sectional.csv'', url_csv_of url, []),
      (''data_usage_agreement.txt'', url_dua_of url, [])]"
  by (simp add: file_names_def file_names_gm_def file_names_wm_def py_slice_prefix
      file_names_extvars_def file_names_dua_def take_map take_2_available_subjects)

lemma replicate_zeros:
  "replicate 3 c = [c, c, c] \<and> replicate 2 c = [c, c]"
  by (simp add: numeral_3_eq_3 numeral_2_eq_2)

lemma fmt_04d_small:
  "fmt_04d (Suc 0) = ''0001'' \<and> fmt_04d 1 = ''0001'' \<and> fmt_04d 2 = ''0002''
   \<and> fmt_04d 3 = ''0003'' \<and> fmt_04d 5 = ''0005''"
  by (simp add: fmt_04d_def str_nat.simps digit_char_def Let_def replicate_zeros)

lemma example_rows_eq:
  "example_rows = map (\<lambda>t. (t, [''R''])) [''OAS1_0001_MR1'', ''OAS1_0002_MR1'', ''OAS1_0003_MR1'',
     ''OAS1_0004_MR1'', ''OAS1_0005_MR1'', ''OAS1_0006_MR1'', ''OAS1_0007_MR1'', ''OAS1_0008_MR1'',
     ''OAS1_0009_MR1'', ''OAS1_0010_MR1'']"
  by (simp add: example_rows_def upt_conv_Cons fmt_04d_def str_nat.simps digit_char_def Let_def
      replicate_zeros)

lemma subject_id_of_examples:
  "subject_id_of ''/data/OAS1/OAS1_0001_MR1/mwrc1OAS1_0001_MR1_mpr_anon_fslswapdim_bet.nii.gz'' = Inr ''OAS1_0001_MR1''
   \<and> subject_id_of ''/data/OAS1/OAS1_0003_MR1/mwrc1OAS1_0003_MR1_mpr_anon_fslswapdim_bet.nii.gz'' = Inr ''OAS1_0003_MR1''
   \<and> subject_id_of ''/data/OAS1/OAS1_0005_MR1/mwrc1OAS1_0005_MR1_mpr_anon_fslswapdim_bet.nii.gz'' = Inr ''OAS1_0005_MR1''"
  by (simp add: subject_id_of_def basename_def str_split_def py_index_def py_slice_def slice_bound_def Let_def)

lemma fetch_sparse_example:
  "fetch sparse_env None (Some 3) True None True False 1 =
     (Inr sparse_bunch,
      [Fetched (file_names 3 True None) True False 1, ReadCsv ''/data/OAS1/oasis_cross-sectional.csv''])"
  by (simp add: fetch_def fetch_with_def check_n_subjects_Some cap_def sparse_env_def sparse_fetcher_def
      subject_path_def fmt_04d_small build_bunch_def py_index_def py_slice_def slice_bound_def Let_def
      subject_id_of_examples example_rows_eq mask_select_def subject_mask_def sparse_bunch_def)

lemma sparse_gray_matter_maps:
  "gray_matter_maps sparse_bunch = map (\<lambda>s. ''/data/OAS1/'' @ subject_path (gm_prefix True) s) [1, 3, 5]"
  by (simp add: sparse_bunch_def subject_path_def gm_prefix_def fmt_04d_small)

lemma sparse_files_of_subjects:
  "list_all2 (\<lambda>p s. s < 10000 \<and> (suffix (subject_path (gm_prefix True) s) p
              \<or> suffix (subject_path (wm_prefix True) s) p)) (gray_matter_maps sparse_bunch) [1, 3, 5]"
  unfolding sparse_gray_matter_maps list_all2_map1 list_all2_same
proof (intro ballI conjI disjI1)
  fix s :: nat
  assume "s \<in> set [1, 3, 5]"
  then show "s < 10000" by auto
  show "suffix (subject_path (gm_prefix True) s) (''/data/OAS1/'' @ subject_path (gm_prefix True) s)"
    by (rule suffixI) (rule refl)
qed

lemma filter_example_rows:
  "filter (\<lambda>row. fst row \<in> (\<lambda>s. ''OAS1_'' @ fmt_04d s @ ''_MR1'') ` set [1, 3, 5]) example_rows
     = [(''OAS1_0001_MR1'', [''R'']), (''OAS1_0003_MR1'', [''R'']), (''OAS1_0005_MR1'', [''R''])]"
  by (simp add: example_rows_eq fmt_04d_small)

lemma subject_id_of_local:
  "subject_id_of ''d/oasis_vbm/OAS1_0001_MR1/mwrc1OAS1_0001_MR1_mpr_anon_fslswapdim_bet.nii.gz'' = Inr ''OAS1_0001_MR1''
   \<and> subject_id_of ''d/oasis_vbm/OAS1_0002_MR1/mwrc1OAS1_0002_MR1_mpr_anon_fslswapdim_bet.nii.gz'' = Inr ''OAS1_0002_MR1''"
  by (simp add: subject_id_of_def basename_def str_split_def py_index_def py_slice_def slice_bound_def Let_def)

lemma fetch_example:
  "fetch example_env (Some ''d'') (Some 2) True None True False 1 =
     (Inr example_bunch,
      [Fetched (file_names 2 True None) True False 1, ReadCsv ''d/oasis_vbm/oasis_cross-sectional.csv''])"
proof -
  have f: "fetcher example_env (Some ''d'') (file_names 2 True None) True False 1 =
      Inr (gray_matter_maps example_bunch @ white_matter_maps example_bunch
           @ [''d/oasis_vbm/oasis_cross-sectional.csv'', ''d/oasis_vbm/data_usage_agreement.txt''])"
    by (simp add: example_env_def local_fetcher_def file_names_2 subject_path_def fmt_04d_small
        gm_prefix_def wm_prefix_def example_bunch_def)
  have r: "recfromcsv example_env ''d/oasis_vbm/oasis_cross-sectional.csv'' = Inr example_rows"
    by (simp add: example_env_def)
  have b: "build_bunch (recfromcsv example_env) 2
      (gray_matter_maps example_bunch @ white_matter_maps example_bunch
       @ [''d/oasis_vbm/oasis_cross-sectional.csv'', ''d/oasis_vbm/data_usage_agreement.txt''])
      = (Inr example_bunch, [ReadCsv ''d/oasis_vbm/oasis_cross-sectional.csv''])"
    by (simp add: build_bunch_def example_bunch_def py_index_def py_slice_def slice_bound_def Let_def
        r subject_id_of_local example_rows_eq mask_select_def subject_mask_def)
  show ?thesis
    by (simp add: fetch_def fetch_with_def check_n_subjects_Some cap_def Let_def f b)
qed

lemma local_fetcher_contract:
  "\<forall>fs files. fetcher example_env data_dir fs resume force verbose = Inr files
      \<longrightarrow> length files = length fs"
  by (auto simp: example_env_def local_fetcher_def)

subsection \<open>The identifiers of the subjects\<close>

text \<open>For a subject number below 10000, \<open>%04d\<close> gives four digits, and the identifier
  computed from the path of a gray-matter or white-matter file of the list, under any
  directory, is \<open>OAS1_\<close>, the four digits and \<open>_MR1\<close>: what comes before the base
  name plays no part.\<close>

lemma digit_char_mem: "n < 10 \<Longrightarrow> digit_char n \<in> set ''0123456789''"
  unfolding digit_char_def by (rule nth_mem) simp

lemma str_nat_digit: "n < 10 \<Longrightarrow> str_nat n = [digit_char n]"
  by (simp add: str_nat.simps)

lemma str_nat_step: "10 \<le> n \<Longrightarrow> str_nat n = str_nat (n div 10) @ [digit_char (n mod 10)]"
  by (subst str_nat.simps) simp

lemma fmt_04d_four:
  assumes "s < 10000"
  shows "fmt_04d s = [digit_char (s div 1000), digit_char (s div 100 mod 10),
                      digit_char (s div 10 mod 10), digit_char (s mod 10)]"
proof -
  consider "s < 10" | "10 \<le> s" "s < 100" | "100 \<le> s" "s < 1000" | "1000 \<le> s"
    by linarith
  then show ?thesis
  proof cases
    case 1
    then show ?thesis
      by (simp add: fmt_04d_def str_nat_digit digit_char_def numeral_3_eq_3)
  next
    case 2
    then have "str_nat s = [digit_char (s div 10), digit_char (s mod 10)]"
      by (simp add: str_nat_step str_nat_digit)
    with 2 show ?thesis
      by (simp add: fmt_04d_def digit_char_def numeral_2_eq_2)
  next
    case 3
    then have "str_nat s = [digit_char (s div 100), digit_char (s div 10 mod 10), digit_char (s mod 10)]"
      by (simp add: str_nat_step str_nat_digit div_mult2_eq [symmetric])
    with 3 show ?thesis
      by (simp add: fmt_04d_def digit_char_def)
  next
    case 4
    with assms have "str_nat s = [digit_char (s div 1000), digit_char (s div 100 mod 10),
        digit_char (s div 10 mod 10), digit_char (s mod 10)]"
      by (simp add: str_nat_step str_nat_digit div_mult2_eq [symmetric])
    then show ?thesis
      by (simp add: fmt_04d_def)
  qed
qed

lemma basename_acc_no_slash: "CHR ''/'' \<notin> set ys \<Longrightarrow> basename_acc acc ys = acc @ ys"
  by (induction ys arbitrary: acc) auto

lemma basename_acc_slash: "basename_acc acc (xs @ CHR ''/'' # ys) = basename_acc [] ys"
  by (induction xs arbitrary: acc) simp_all

lemma basename_after_slash: "CHR ''/'' \<notin> set ys \<Longrightarrow> basename (xs @ CHR ''/'' # ys) = ys"
  by (simp add: basename_def basename_acc_slash basename_acc_no_slash)

lemma digit_not_O: "c \<in> set ''0123456789'' \<Longrightarrow> c \<noteq> CHR ''O'' \<and> c \<noteq> CHR ''/''"
  by auto

lemma subject_id_of_digits:
  assumes "a \<in> set ''0123456789''" "b \<in> set ''0123456789''" "c \<in> set ''0123456789''" "e \<in> set ''0123456789''"
      and "pre \<in> {''mwrc1'', ''mwc1'', ''mwrc2'', ''mwc2''}"
  shows "subject_id_of (dir @ ''OAS1_'' @ [a, b, c, e] @ ''_MR1'' @ ''/'' @ pre @ ''OAS1_'' @ [a, b, c, e]
            @ ''_MR1_mpr_anon_fslswapdim_bet.nii.gz'')
         = Inr (''OAS1_'' @ [a, b, c, e] @ ''_MR1'')"
proof -
  note n = digit_not_O [OF assms(1)] digit_not_O [OF assms(2)] digit_not_O [OF assms(3)] digit_not_O [OF assms(4)]
  let ?tail = "pre @ ''OAS1_'' @ [a, b, c, e] @ ''_MR1_mpr_anon_fslswapdim_bet.nii.gz''"
  have "CHR ''/'' \<notin> set ?tail"
    using n assms(5) by auto
  from basename_after_slash [OF this, of "dir @ ''OAS1_'' @ [a, b, c, e] @ ''_MR1''"]
  have b: "basename (dir @ ''OAS1_'' @ [a, b, c, e] @ ''_MR1'' @ ''/'' @ ?tail) = ?tail"
    by simp
  have s: "str_split ?tail ''OAS1'' = Inr [pre, ''_'' @ [a, b, c, e] @ ''_MR1_mpr_anon_fslswapdim_bet.nii.gz'']"
    using n assms(5) by (auto simp: str_split_def)
  show ?thesis
    unfolding subject_id_of_def b s
    by (simp add: py_index_def py_slice_def slice_bound_def)
qed

lemma subject_id_of_subject_path:
  assumes "s < 10000" and "pre \<in> {gm_prefix d, wm_prefix d}"
  shows "subject_id_of (dir @ subject_path pre s) = Inr (''OAS1_'' @ fmt_04d s @ ''_MR1'')"
proof -
  from assms(2) have "pre \<in> {''mwrc1'', ''mwc1'', ''mwrc2'', ''mwc2''}"
    by (cases d) (auto simp: gm_prefix_def wm_prefix_def)
  moreover from assms(1) have "s div 1000 < 10" "s div 100 mod 10 < 10" "s div 10 mod 10 < 10" "s mod 10 < 10"
    by simp_all
  ultimately show ?thesis
    unfolding subject_path_def fmt_04d_four [OF assms(1)]
    by (intro subject_id_of_digits digit_char_mem)
qed

subsection \<open>The result of a successful call\<close>

text \<open>
  C1. When the call succeeds, with a fetcher that returns one local path for each entry
  of the list of files, the gray-matter list and the white-matter list of the result
  have the same length, which is the number of subjects that the call used.
\<close>

theorem maps_lengths:
  assumes "fetch e data_dir n_subjects d url resume force verbose = (Inr b, tr)"
      and "\<forall>fs files. fetcher e data_dir fs resume force verbose = Inr files
              \<longrightarrow> length files = length fs"
  shows "\<exists>k. effective_count n_subjects d = Inr k \<and> 1 \<le> k
           \<and> length (gray_matter_maps b) = nat k
           \<and> length (white_matter_maps b) = nat k"
proof -
  from fetch_success [OF assms(1)] obtain k files t where
    k: "effective_count n_subjects d = Inr k" "1 \<le> k" "k \<le> cap d"
    and f: "fetcher e data_dir (file_names k d url) resume force verbose = Inr files"
    and bb: "build_bunch (recfromcsv e) k files = (Inr b, t)"
    by blast
  from assms(2) f have "length files = length (file_names k d url)"
    by blast
  with k have len: "length files = 2 * min (nat k) (length (available_subjects d)) + 2"
    by (simp add: length_file_names)
  from build_bunch_success [OF bb] have
    g: "gray_matter_maps b = py_slice files 0 k" and w: "white_matter_maps b = py_slice files k (2 * k)"
    by blast+
  from k have g': "gray_matter_maps b = take (nat k) files"
    and w': "white_matter_maps b = take (nat k) (drop (nat k) files)"
    by (simp_all add: g w py_slice_prefix py_slice_middle)
  from k(2,3) have "nat k \<le> length (available_subjects d) + 1"
    by (cases d) (simp_all add: cap_def length_available_subjects nat_le_iff)
  with len have "2 * nat k \<le> length files"
    by (simp add: min_def split: if_splits)
  then have "length (gray_matter_maps b) = nat k \<and> length (white_matter_maps b) = nat k"
    by (simp add: g' w')
  with k show ?thesis by blast
qed

theorem maps_lengths_witness:
  "fetch example_env (Some ''d'') (Some 2) True None True False 1 =
     (Inr example_bunch,
      [Fetched (file_names 2 True None) True False 1, ReadCsv ''d/oasis_vbm/oasis_cross-sectional.csv''])
   \<and> effective_count (Some 2) True = Inr 2
   \<and> length (gray_matter_maps example_bunch) = 2
   \<and> length (white_matter_maps example_bunch) = 2"
  using maps_lengths [OF fetch_example local_fetcher_contract] fetch_example
  by (simp add: example_bunch_def effective_count_def check_n_subjects_Some cap_def)

text \<open>
  C5. The list of files is the gray-matter entries, then the white-matter entries, then
  the CSV, then the agreement. When the call succeeds, the result is cut out of the
  fetcher's list by position alone: the first \<open>k\<close> paths are the gray-matter maps, the
  next \<open>k\<close> the white-matter maps, the last but one is the CSV that is read, and the last
  is the agreement, \<open>k\<close> being the number of subjects that the call used.
\<close>

theorem manifest_order_and_split:
  assumes "fetch e data_dir n_subjects d url resume force verbose = (Inr b, tr)"
  shows "\<exists>k files. effective_count n_subjects d = Inr k \<and> 1 \<le> k
         \<and> file_names k d url =
             file_names_gm k d url @ file_names_wm k d url
               @ [(''oasis_cross-sectional.csv'', url_csv_of url, []),
                  (''data_usage_agreement.txt'', url_dua_of url, [])]
         \<and> fetcher e data_dir (file_names k d url) resume force verbose = Inr files
         \<and> gray_matter_maps b = take (nat k) files
         \<and> white_matter_maps b = take (nat k) (drop (nat k) files)
         \<and> 2 \<le> length files
         \<and> data_usage_agreement b = files ! (length files - 1)
         \<and> tr = [Fetched (file_names k d url) resume force verbose,
                 ReadCsv (files ! (length files - 2))]"
proof -
  from fetch_success [OF assms] obtain k files t where
    k: "effective_count n_subjects d = Inr k" "1 \<le> k"
    and f: "fetcher e data_dir (file_names k d url) resume force verbose = Inr files"
    and bb: "build_bunch (recfromcsv e) k files = (Inr b, t)"
    and tr: "tr = Fetched (file_names k d url) resume force verbose # t"
    by blast
  from build_bunch_success [OF bb] obtain csv_file where
    c: "py_index files (- 2) = Inr csv_file"
    and a: "py_index files (- 1) = Inr (data_usage_agreement b)"
    and g: "gray_matter_maps b = py_slice files 0 k"
    and w: "white_matter_maps b = py_slice files k (2 * k)"
    and t: "t = [ReadCsv csv_file]"
    by blast
  from py_index_before_last [OF c] have c': "2 \<le> length files" "csv_file = files ! (length files - 2)"
    by simp_all
  from py_index_last [OF a] have a': "data_usage_agreement b = files ! (length files - 1)"
    by (simp add: last_conv_nth)
  from k have g': "gray_matter_maps b = take (nat k) files"
    and w': "white_matter_maps b = take (nat k) (drop (nat k) files)"
    by (simp_all add: g w py_slice_prefix py_slice_middle)
  have m: "file_names k d url =
             file_names_gm k d url @ file_names_wm k d url
               @ [(''oasis_cross-sectional.csv'', url_csv_of url, []),
                  (''data_usage_agreement.txt'', url_dua_of url, [])]"
    by (simp add: file_names_def file_names_extvars_def file_names_dua_def)
  from k m f g' w' c' a' tr t show ?thesis
    by blast
qed

theorem manifest_order_and_split_witness:
  "\<exists>files. fetch example_env (Some ''d'') (Some 2) True None True False 1 =
       (Inr example_bunch, [Fetched (file_names 2 True None) True False 1, ReadCsv (files ! 4)])
     \<and> fetcher example_env (Some ''d'') (file_names 2 True None) True False 1 = Inr files
     \<and> length files = 6
     \<and> gray_matter_maps example_bunch = [files ! 0, files ! 1]
     \<and> white_matter_maps example_bunch = [files ! 2, files ! 3]
     \<and> data_usage_agreement example_bunch = files ! 5"
proof -
  have f: "fetcher example_env (Some ''d'') (file_names 2 True None) True False 1 =
      Inr (gray_matter_maps example_bunch @ white_matter_maps example_bunch
           @ [''d/oasis_vbm/oasis_cross-sectional.csv'', ''d/oasis_vbm/data_usage_agreement.txt''])"
    by (simp add: example_env_def local_fetcher_def file_names_2 subject_path_def fmt_04d_small
        gm_prefix_def wm_prefix_def example_bunch_def)
  show ?thesis
    using manifest_order_and_split [OF fetch_example] fetch_example f
    by (simp add: example_bunch_def)
qed

lemma actual_subjects_ids_of_subjects:
  assumes "list_all2 (\<lambda>p s. s < 10000 \<and> (suffix (subject_path (gm_prefix d) s) p
              \<or> suffix (subject_path (wm_prefix d) s) p)) ps subjects"
  shows "actual_subjects_ids ps = Inr (map (\<lambda>s. ''OAS1_'' @ fmt_04d s @ ''_MR1'') subjects)"
  using assms
proof (induction ps subjects rule: list_all2_induct)
  case Nil
  show ?case by simp
next
  case (Cons p ps s subjects)
  from Cons.hyps(1) have lt: "s < 10000" by simp
  from Cons.hyps(1) obtain dir pre where "pre \<in> {gm_prefix d, wm_prefix d}"
    and "p = dir @ subject_path pre s"
    unfolding suffix_def by blast
  with lt have "subject_id_of p = Inr (''OAS1_'' @ fmt_04d s @ ''_MR1'')"
    using subject_id_of_subject_path by blast
  with Cons.IH show ?case by simp
qed

text \<open>
  C10. When the call succeeds, the rows of the result are the rows of the table that was
  read whose \<open>id\<close> is among the identifiers computed from the base names of the
  gray-matter files, one identifier for each file, and they come in the order of the
  table. When the gray-matter files are files of the list for some subjects, each under
  any directory, the identifiers are \<open>OAS1_\<close>, the four digits of the subject and
  \<open>_MR1\<close>, so the rows kept are exactly the rows of these subjects. With rows for the
  subjects 1 to 10 and the files of the subjects 1, 3 and 5, three rows are left, those
  of 1, 3 and 5 in this order.
\<close>

theorem ext_vars_filtered:
  assumes "fetch e data_dir n_subjects d url resume force verbose = (Inr b, tr)"
  shows "\<exists>files csv_file csv_data ids.
           tr = [Fetched files resume force verbose, ReadCsv csv_file]
         \<and> recfromcsv e csv_file = Inr csv_data
         \<and> actual_subjects_ids (gray_matter_maps b) = Inr ids
         \<and> list_all2 (\<lambda>x t. subject_id_of x = Inr t) (gray_matter_maps b) ids
         \<and> ext_vars b = filter (\<lambda>row. fst row \<in> set ids) csv_data
         \<and> subseq (ext_vars b) csv_data
         \<and> (\<forall>subjects.
              list_all2 (\<lambda>p s. s < 10000 \<and> (suffix (subject_path (gm_prefix d) s) p
                 \<or> suffix (subject_path (wm_prefix d) s) p)) (gray_matter_maps b) subjects
              \<longrightarrow> ids = map (\<lambda>s. ''OAS1_'' @ fmt_04d s @ ''_MR1'') subjects
                \<and> ext_vars b =
                    filter (\<lambda>row. fst row \<in> (\<lambda>s. ''OAS1_'' @ fmt_04d s @ ''_MR1'') ` set subjects)
                      csv_data)"
proof -
  from fetch_success [OF assms] obtain k files t where
    bb: "build_bunch (recfromcsv e) k files = (Inr b, t)"
    and tr: "tr = Fetched (file_names k d url) resume force verbose # t"
    by blast
  from build_bunch_success [OF bb] obtain csv_file csv_data ids where
    r: "recfromcsv e csv_file = Inr csv_data"
    and i: "actual_subjects_ids (gray_matter_maps b) = Inr ids"
    and x: "ext_vars b = mask_select csv_data (subject_mask ids csv_data)"
    and t: "t = [ReadCsv csv_file]"
    by blast
  have f: "ext_vars b = filter (\<lambda>row. fst row \<in> set ids) csv_data"
    by (simp add: x subject_mask_def mask_select_filter)
  have s: "ids = map (\<lambda>s. ''OAS1_'' @ fmt_04d s @ ''_MR1'') subjects
      \<and> ext_vars b =
          filter (\<lambda>row. fst row \<in> (\<lambda>s. ''OAS1_'' @ fmt_04d s @ ''_MR1'') ` set subjects) csv_data"
    if "list_all2 (\<lambda>p s. s < 10000 \<and> (suffix (subject_path (gm_prefix d) s) p
            \<or> suffix (subject_path (wm_prefix d) s) p)) (gray_matter_maps b) subjects" for subjects
  proof -
    from actual_subjects_ids_of_subjects [OF that] i
    have "ids = map (\<lambda>s. ''OAS1_'' @ fmt_04d s @ ''_MR1'') subjects"
      by simp
    with f show ?thesis by simp
  qed
  have sub: "subseq (ext_vars b) csv_data"
    by (simp add: f)
  from tr t r i f sub s actual_subjects_ids_rel [OF i] show ?thesis
    by blast
qed

theorem ext_vars_filtered_witness:
  "fetch sparse_env None (Some 3) True None True False 1 =
     (Inr sparse_bunch,
      [Fetched (file_names 3 True None) True False 1, ReadCsv ''/data/OAS1/oasis_cross-sectional.csv''])
   \<and> gray_matter_maps sparse_bunch =
       map (\<lambda>s. ''/data/OAS1/'' @ subject_path (gm_prefix True) s) [1, 3, 5]
   \<and> ext_vars sparse_bunch =
       filter (\<lambda>row. fst row \<in> (\<lambda>s. ''OAS1_'' @ fmt_04d s @ ''_MR1'') ` set [1, 3, 5]) example_rows
   \<and> ext_vars sparse_bunch =
       [(''OAS1_0001_MR1'', [''R'']), (''OAS1_0003_MR1'', [''R'']), (''OAS1_0005_MR1'', [''R''])]"
proof -
  from ext_vars_filtered [OF fetch_sparse_example] obtain csv_file csv_data ids where
    r: "recfromcsv sparse_env csv_file = Inr csv_data"
    and a: "\<forall>subjects.
              list_all2 (\<lambda>p s. s < 10000 \<and> (suffix (subject_path (gm_prefix True) s) p
                 \<or> suffix (subject_path (wm_prefix True) s) p)) (gray_matter_maps sparse_bunch) subjects
              \<longrightarrow> ids = map (\<lambda>s. ''OAS1_'' @ fmt_04d s @ ''_MR1'') subjects
                \<and> ext_vars sparse_bunch =
                    filter (\<lambda>row. fst row \<in> (\<lambda>s. ''OAS1_'' @ fmt_04d s @ ''_MR1'') ` set subjects)
                      csv_data"
    apply (elim exE conjE)
    apply (rule that; assumption)
    done
  from r have c: "csv_data = example_rows"
    by (simp add: sparse_env_def)
  from a [rule_format, OF sparse_files_of_subjects] have e:
    "ext_vars sparse_bunch =
       filter (\<lambda>row. fst row \<in> (\<lambda>s. ''OAS1_'' @ fmt_04d s @ ''_MR1'') ` set [1, 3, 5]) example_rows"
    unfolding c by (rule conjunct2)
  from e have e': "ext_vars sparse_bunch =
       [(''OAS1_0001_MR1'', [''R'']), (''OAS1_0003_MR1'', [''R'']), (''OAS1_0005_MR1'', [''R''])]"
    by (rule trans) (rule filter_example_rows)
  show ?thesis
    by (rule conjI [OF fetch_sparse_example conjI [OF sparse_gray_matter_maps conjI [OF e e']]])
qed

end
